theory Spec2Isabelle
  imports Main "HOL-Library.Word"
begin

unbundle bit_operations_syntax

section \<open>lib-storage/mail-storage.c: the error slot of a storage\<close>

text \<open>
  \<^verbatim>\<open>struct mail_storage\<close> keeps the last error in two fields, \<^verbatim>\<open>char *error\<close> (NULL when
  there is none) and \<^verbatim>\<open>syntax_error\<close>. The other fields of the struct stay in the
  record's extension part.
\<close>

record mail_storage =
  error :: "string option"
  syntax_error :: bool

text \<open>
  The process state the setters read and write: \<^verbatim>\<open>errno\<close> (read by the \<^verbatim>\<open>%m\<close> directive
  of the formatter), the global \<^verbatim>\<open>ioloop_time\<close>, and the operator log that \<^verbatim>\<open>i_error\<close>
  appends to (oldest line first).
\<close>

record sys =
  errno :: int
  ioloop_time :: int
  error_log :: "string list"

text \<open>
  The library functions the file calls and does not define are parameters:
  \<^verbatim>\<open>localtime\<close>, \<^verbatim>\<open>strftime(buf, size, fmt, tm)\<close> (the count it returns and the buffer
  it leaves), and \<^verbatim>\<open>t_strdup_vprintf(fmt, va)\<close>, which expands \<^verbatim>\<open>%m\<close> from \<^verbatim>\<open>errno\<close>.
\<close>

record ('tm, 'va) libc =
  localtime :: "int \<Rightarrow> 'tm"
  strftime :: "nat \<Rightarrow> string \<Rightarrow> 'tm \<Rightarrow> nat \<times> string"
  vprintf :: "int \<Rightarrow> string \<Rightarrow> 'va \<Rightarrow> string"

definition CRITICAL_MSG :: string where
  "CRITICAL_MSG = ''Internal error occured. Refer to server log for more information.''"

definition CRITICAL_MSG_STAMP :: string where
  "CRITICAL_MSG_STAMP = CRITICAL_MSG @ '' [%Y-%m-%d %H:%M:%S]''"

definition i_error :: "'b sys_scheme \<Rightarrow> string \<Rightarrow> 'b sys_scheme" where
  "i_error s line = s\<lparr>error_log := error_log s @ [line]\<rparr>"

definition mail_storage_clear_error :: "'a mail_storage_scheme \<Rightarrow> 'a mail_storage_scheme" where
  "mail_storage_clear_error storage = storage\<lparr>error := None, syntax_error := False\<rparr>"



definition mail_storage_set_internal_error ::
  "('tm, 'va) libc \<Rightarrow> 'b sys_scheme \<Rightarrow> 'a mail_storage_scheme \<Rightarrow> 'a mail_storage_scheme" where
  "mail_storage_set_internal_error lc s storage =
     (let tm = localtime lc (ioloop_time s);
          storage = storage\<lparr>error := None\<rparr>;
          (n, str) = strftime lc 256 CRITICAL_MSG_STAMP tm
      in storage\<lparr>error := (if n > 0 then Some str else Some CRITICAL_MSG),
                  syntax_error := False\<rparr>)"

definition mail_storage_set_critical ::
  "('tm, 'va) libc \<Rightarrow> 'b sys_scheme \<Rightarrow> 'a mail_storage_scheme \<Rightarrow> string option \<Rightarrow> 'va
     \<Rightarrow> 'b sys_scheme \<times> 'a mail_storage_scheme" where
  "mail_storage_set_critical lc s storage fmt va =
     (let storage = storage\<lparr>error := None\<rparr> in
      case fmt of
        None \<Rightarrow> (s, storage\<lparr>error := None\<rparr>)
      | Some f \<Rightarrow>
          (let s = i_error s (vprintf lc (errno s) f va)
           in (s, mail_storage_set_internal_error lc s storage)))"


section \<open>lib-storage/mail-storage.c: the registry of storage classes\<close>

text \<open>
  A storage class is its name and the two entries of its function table that the
  registry calls. Both are code of the backends: they run on a world \<open>'w\<close> that they may
  change, and \<^verbatim>\<open>create\<close> returns the new storage or NULL (\<open>None\<close>). The \<^verbatim>\<open>data\<close> argument
  of \<^verbatim>\<open>create\<close> may be NULL. The global array \<^verbatim>\<open>storages\<close> is the list of classes in
  registration order.
\<close>

record ('w, 's, 'u) storage_class =
  name :: string
  create :: "string option \<Rightarrow> 'u \<Rightarrow> int \<Rightarrow> int \<Rightarrow> 'w \<Rightarrow> 's option \<times> 'w"
  autodetect :: "string \<Rightarrow> int \<Rightarrow> 'w \<Rightarrow> bool \<times> 'w"

definition mail_storage_class_register ::
  "('w, 's, 'u) storage_class list \<Rightarrow> ('w, 's, 'u) storage_class
     \<Rightarrow> ('w, 's, 'u) storage_class list" where
  "mail_storage_class_register storages storage_class = storages @ [storage_class]"

text \<open>
  Modelled from the spec: the macro \<^verbatim>\<open>i_isalnum\<close> (lib.h, over libc's \<^verbatim>\<open>isalnum\<close>) is not
  among the sources; the spec gives the character class \<^verbatim>\<open>[A-Za-z0-9]\<close>.
\<close>

definition i_isalnum :: "char \<Rightarrow> bool" where
  "i_isalnum c =
     (let n = (of_char c :: nat)
      in (48 \<le> n \<and> n \<le> 57) \<or> (65 \<le> n \<and> n \<le> 90) \<or> (97 \<le> n \<and> n \<le> 122))"

text \<open>
  Modelled from the spec: libc's \<^verbatim>\<open>strcasecmp\<close> is not among the sources; the spec has
  \<^verbatim>\<open>find(name)\<close> as a case-insensitive exact match. Letters are folded as in the C locale.
\<close>

definition i_tolower :: "char \<Rightarrow> char" where
  "i_tolower c =
     (let n = (of_char c :: nat) in if 65 \<le> n \<and> n \<le> 90 then char_of (n + 32) else c)"

fun strcasecmp :: "string \<Rightarrow> string \<Rightarrow> int" where
  "strcasecmp [] [] = 0"
| "strcasecmp [] (b # bs) = - int (of_char (i_tolower b))"
| "strcasecmp (a # as) [] = int (of_char (i_tolower a))"
| "strcasecmp (a # as) (b # bs) =
     (if i_tolower a = i_tolower b then strcasecmp as bs
      else int (of_char (i_tolower a)) - int (of_char (i_tolower b)))"

fun mail_storage_find ::
  "('w, 's, 'u) storage_class list \<Rightarrow> string \<Rightarrow> ('w, 's, 'u) storage_class option" where
  "mail_storage_find [] nm = None"
| "mail_storage_find (c # classes) nm =
     (if strcasecmp (name c) nm = 0 then Some c else mail_storage_find classes nm)"

definition mail_storage_create ::
  "('w, 's, 'u) storage_class list \<Rightarrow> string \<Rightarrow> string option \<Rightarrow> 'u \<Rightarrow> int \<Rightarrow> int \<Rightarrow> 'w
     \<Rightarrow> 's option \<times> 'w" where
  "mail_storage_create storages nm data user flags lock_method w =
     (case mail_storage_find storages nm of
        Some storage \<Rightarrow> create storage data user flags lock_method w
      | None \<Rightarrow> (None, w))"

fun mail_storage_create_default ::
  "('w, 's, 'u) storage_class list \<Rightarrow> 'u \<Rightarrow> int \<Rightarrow> int \<Rightarrow> 'w \<Rightarrow> 's option \<times> 'w" where
  "mail_storage_create_default [] user flags lock_method w = (None, w)"
| "mail_storage_create_default (c # classes) user flags lock_method w =
     (case create c None user flags lock_method w of
        (Some storage, w') \<Rightarrow> (Some storage, w')
      | (None, w') \<Rightarrow> mail_storage_create_default classes user flags lock_method w')"

fun mail_storage_autodetect ::
  "('w, 's, 'u) storage_class list \<Rightarrow> string \<Rightarrow> int \<Rightarrow> 'w
     \<Rightarrow> ('w, 's, 'u) storage_class option \<times> 'w" where
  "mail_storage_autodetect [] data flags w = (None, w)"
| "mail_storage_autodetect (c # classes) data flags w =
     (case autodetect c data flags w of
        (True, w') \<Rightarrow> (Some c, w')
      | (False, w') \<Rightarrow> mail_storage_autodetect classes data flags w')"

text \<open>
  The pointer \<^verbatim>\<open>p\<close> of \<^verbatim>\<open>mail_storage_create_with_data\<close> is the rest of \<^verbatim>\<open>data\<close> it points
  to; the empty rest is the terminating NUL. \<^verbatim>\<open>skip_alnum\<close> is the loop
  \<^verbatim>\<open>while (i_isalnum(*p)) p++\<close>, and \<^verbatim>\<open>t_strdup_until(data, p)\<close> copies what lies before
  \<^verbatim>\<open>p\<close>.
\<close>

fun skip_alnum :: "string \<Rightarrow> string" where
  "skip_alnum [] = []"
| "skip_alnum (c # cs) = (if i_isalnum c then skip_alnum cs else c # cs)"

definition t_strdup_until :: "string \<Rightarrow> string \<Rightarrow> string" where
  "t_strdup_until data p = take (length data - length p) data"

definition mail_storage_create_with_data ::
  "('w, 's, 'u) storage_class list \<Rightarrow> string option \<Rightarrow> 'u \<Rightarrow> int \<Rightarrow> int \<Rightarrow> 'w
     \<Rightarrow> 's option \<times> 'w" where
  "mail_storage_create_with_data storages data user flags lock_method w =
     (case data of
        None \<Rightarrow> mail_storage_create_default storages user flags lock_method w
      | Some [] \<Rightarrow> mail_storage_create_default storages user flags lock_method w
      | Some d \<Rightarrow>
          (let p = skip_alnum d in
           if p \<noteq> [] \<and> hd p = CHR '':'' then
             (let nm = t_strdup_until d p
              in mail_storage_create storages nm (Some (tl p)) user flags lock_method w)
           else
             (case mail_storage_autodetect storages d flags w of
                (Some storage, w') \<Rightarrow> create storage (Some d) user flags lock_method w'
              | (None, w') \<Rightarrow> (None, w'))))"

section \<open>lib-storage/index/dbox-common/dbox-storage.c\<close>

text \<open>
  The file works on collaborators that are not part of it: the file system, the index
  engine, the mailbox list, the backend's function table. A run of one of its functions
  is modelled with the calls it makes to them, in order (\<open>trace\<close>), and with what each
  call returns in that run given by an environment. No function of the file calls a
  collaborator twice on one path, so one value per collaborator describes a run.
  What a collaborator does behind its interface (to the index, to the files, to the
  storage of the mailbox) is its call in the trace and nothing more; the writes of the
  file itself to the error slot of the storage, to \<^verbatim>\<open>errno\<close> after a failed \<^verbatim>\<open>stat\<close> and
  to the operator log are modelled as they are made.
  \<^verbatim>\<open>int\<close> values are integers: the file only compares them with 0 and returns them. The
  sums and differences of \<^verbatim>\<open>time_t\<close> values wrap around at the width of \<^verbatim>\<open>time_t\<close>.
\<close>

record stat_buf =
  st_atime :: int
  st_ctime :: int

record mailbox_list =
  props :: "32 word"

record mailbox =
  box_name :: string
  box_path :: string
  box_list :: mailbox_list
  box_storage :: mail_storage

datatype call =
    Stat string
  | Unlink_old_files string string int
  | Index_storage_mailbox_open
  | Mail_index_sync_begin
  | Mail_index_get_header
  | Mailbox_create_indexes
  | Mail_index_sync_rollback
  | Mail_index_sync_commit
  | Mail_index_reset_error

record world = sys +
  trace :: "call list"

text \<open>
  The environment of a run. \<open>stat\<close> gives \<open>Inl errno\<close> when the call fails and the
  buffer it fills otherwise; a field with the name of a function of type \<open>int\<close> is the
  value that function returns; \<open>uid_validity\<close> is the field of the header that
  \<^verbatim>\<open>mail_index_get_header(view)\<close> returns. The constants of dbox-storage.h,
  mailbox-list.h, mail-error.h and errno.h that the file uses, the message helpers
  \<^verbatim>\<open>T_MAIL_ERR_MAILBOX_NOT_FOUND\<close> and \<^verbatim>\<open>mail_error_eacces_msg\<close>, and the three-argument
  \<^verbatim>\<open>mail_storage_set_error(storage, error, string)\<close> that \<^verbatim>\<open>dbox_mailbox_open\<close> calls
  (mail-storage.c has the format-string setter only) are parameters too.
\<close>

record env =
  stat :: "string \<Rightarrow> int + stat_buf"
  unlink_old_files :: int
  mailbox_list_get_global_temp_prefix :: "mailbox_list \<Rightarrow> string"
  index_storage_mailbox_open :: int
  mail_index_sync_begin :: int
  uid_validity :: "32 word"
  mailbox_create_indexes :: int
  mail_index_sync_commit :: int
  DBOX_TMP_DELETE_SECS :: int
  DBOX_TMP_SCAN_SECS :: int
  MAILBOX_LIST_PROP_NO_NOSELECT :: "32 word"
  ENOENT :: int
  EACCES :: int
  MAIL_ERROR_NOTFOUND :: int
  T_MAIL_ERR_MAILBOX_NOT_FOUND :: "string \<Rightarrow> string"
  mail_error_eacces_msg :: "string \<Rightarrow> string \<Rightarrow> string"
  mail_storage_set_error_code :: "mail_storage \<Rightarrow> int \<Rightarrow> string \<Rightarrow> mail_storage"

datatype fatal = Assertion_failed

definition called :: "world \<Rightarrow> call \<Rightarrow> world" where
  "called w c = w\<lparr>trace := trace w @ [c]\<rparr>"

text \<open>
  \<^verbatim>\<open>time_t\<close> is a signed integer of 64 bits. The values of the model are integers, and
  \<open>to_time_t\<close> is the value a sum or difference has as a \<^verbatim>\<open>time_t\<close>: the sum or difference
  itself when it is in the range, and wrapped around otherwise.
\<close>

definition in_time_t :: "int \<Rightarrow> bool" where
  "in_time_t x = (- (2 ^ 63) \<le> x \<and> x < 2 ^ 63)"

definition to_time_t :: "int \<Rightarrow> int" where
  "to_time_t x = sint (word_of_int x :: 64 word)"

definition dbox_cleanup_if_exists ::
  "env \<Rightarrow> world \<Rightarrow> mailbox_list \<Rightarrow> string \<Rightarrow> bool \<times> world" where
  "dbox_cleanup_if_exists e w list path =
     (case stat e path of
        Inl err \<Rightarrow> (False, (called w (Stat path))\<lparr>errno := err\<rparr>)
      | Inr st \<Rightarrow>
          (let w = called w (Stat path) in
           if st_atime st > to_time_t (st_ctime st + DBOX_TMP_DELETE_SECS e) then (True, w)
           else if st_atime st < to_time_t (ioloop_time w - DBOX_TMP_SCAN_SECS e) then
             (let prefix = mailbox_list_get_global_temp_prefix e list;
                  w = called w (Unlink_old_files path prefix
                                  (to_time_t (ioloop_time w - DBOX_TMP_DELETE_SECS e)))
              in (True, w))
           else (True, w)))"

definition dbox_mailbox_open ::
  "env \<Rightarrow> ('tm, string list) libc \<Rightarrow> world \<Rightarrow> mailbox \<Rightarrow> int \<times> world \<times> mailbox" where
  "dbox_mailbox_open e lc w box =
     (case dbox_cleanup_if_exists e w (box_list box) (box_path box) of
        (True, w) \<Rightarrow>
          (index_storage_mailbox_open e, called w Index_storage_mailbox_open, box)
      | (False, w) \<Rightarrow>
          if errno w = ENOENT e then
            (- 1, w,
             box\<lparr>box_storage :=
                   mail_storage_set_error_code e (box_storage box) (MAIL_ERROR_NOTFOUND e)
                     (T_MAIL_ERR_MAILBOX_NOT_FOUND e (box_name box))\<rparr>)
          else if errno w = EACCES e then
            (case mail_storage_set_critical lc w (box_storage box) (Some ''%s'')
                    [mail_error_eacces_msg e ''stat'' (box_path box)] of
               (w, storage) \<Rightarrow> (- 1, w, box\<lparr>box_storage := storage\<rparr>))
          else
            (case mail_storage_set_critical lc w (box_storage box)
                    (Some ''stat(%s) failed: %m'') [box_path box] of
               (w, storage) \<Rightarrow> (- 1, w, box\<lparr>box_storage := storage\<rparr>)))"

definition dbox_mailbox_create ::
  "env \<Rightarrow> ('tm, 'va) libc \<Rightarrow> world \<Rightarrow> mailbox \<Rightarrow> bool \<Rightarrow> (fatal + int) \<times> world \<times> mailbox" where
  "dbox_mailbox_create e lc w box directory =
     (if directory \<and> (props (box_list box) AND MAILBOX_LIST_PROP_NO_NOSELECT e) = 0 then
        (Inr 0, w, box)
      else
        (let w = called w Index_storage_mailbox_open in
         if index_storage_mailbox_open e < 0 then (Inr (- 1), w, box)
         else
           (let w = called w Mail_index_sync_begin;
                ret = mail_index_sync_begin e
            in
            if ret \<le> 0 then
              (if \<not> (ret \<noteq> 0) then (Inl Assertion_failed, w, box)
               else
                 (let box = box\<lparr>box_storage :=
                                 mail_storage_set_internal_error lc w (box_storage box)\<rparr>;
                      w = called w Mail_index_reset_error
                  in (Inr (- 1), w, box)))
            else
              (let w = called w Mail_index_get_header in
               if uid_validity e = 0 then
                 (let w = called w Mailbox_create_indexes in
                  if mailbox_create_indexes e < 0 then
                    (Inr (- 1), called w Mail_index_sync_rollback, box)
                  else (Inr (mail_index_sync_commit e), called w Mail_index_sync_commit, box))
               else (Inr (mail_index_sync_commit e), called w Mail_index_sync_commit, box)))))"


section \<open>Vocabulary of the properties\<close>

text \<open>The calls a run has added to the trace of the world it started in.\<close>

definition calls_since :: "world \<Rightarrow> world \<Rightarrow> call list" where
  "calls_since w w' = drop (length (trace w)) (trace w')"

text \<open>A scan of the mailbox directory is a call of \<^verbatim>\<open>unlink_old_files\<close>.\<close>

fun is_scan :: "call \<Rightarrow> bool" where
  "is_scan (Unlink_old_files path prefix min_time) = True"
| "is_scan _ = False"

text \<open>The test that opens \<^verbatim>\<open>dbox_mailbox_create\<close>.\<close>

definition create_is_trivial :: "env \<Rightarrow> mailbox \<Rightarrow> bool \<Rightarrow> bool" where
  "create_is_trivial e box directory =
     (directory \<and> (props (box_list box) AND MAILBOX_LIST_PROP_NO_NOSELECT e) = 0)"



text \<open>
  The data begins with a run of alphanumerics, which may be empty, and a colon
  (\<^verbatim>\<open>^[A-Za-z0-9]*:\<close>).
\<close>

definition has_name_prefix :: "string \<Rightarrow> bool" where
  "has_name_prefix d =
     (case dropWhile i_isalnum d of [] \<Rightarrow> False | c # rest \<Rightarrow> c = CHR '':'')"

text \<open>
  The branch of \<^verbatim>\<open>mail_storage_create_with_data\<close> in the spec's words: \<^verbatim>\<open>data\<close> matches
  \<^verbatim>\<open>^[A-Za-z0-9]+:\<close> when its leading run of alphanumerics is not empty and a colon
  follows it.
\<close>

definition matches_name_colon :: "string \<Rightarrow> bool" where
  "matches_name_colon d =
     (takeWhile i_isalnum d \<noteq> [] \<and>
      (case dropWhile i_isalnum d of [] \<Rightarrow> False | c # rest \<Rightarrow> c = CHR '':''))"

definition spec_create_with_data ::
  "('w, 's, 'u) storage_class list \<Rightarrow> string option \<Rightarrow> 'u \<Rightarrow> int \<Rightarrow> int \<Rightarrow> 'w
     \<Rightarrow> 's option \<times> 'w" where
  "spec_create_with_data storages data user flags lock_method w =
     (case data of
        None \<Rightarrow> mail_storage_create_default storages user flags lock_method w
      | Some d \<Rightarrow>
          if d = [] then mail_storage_create_default storages user flags lock_method w
          else if matches_name_colon d then
            mail_storage_create storages (takeWhile i_isalnum d)
              (Some (tl (dropWhile i_isalnum d))) user flags lock_method w
          else
            (case mail_storage_autodetect storages d flags w of
               (Some storage, w') \<Rightarrow> create storage (Some d) user flags lock_method w'
             | (None, w') \<Rightarrow> (None, w')))"

section \<open>Concrete instances\<close>

text \<open>
  Instances of the parameters, for running the model on concrete inputs. The formatter
  knows the directives \<^verbatim>\<open>%s\<close> and \<^verbatim>\<open>%m\<close>; the clock is UTC and right for the first
  days of 1970, which is where the examples are.
\<close>

definition example_strerror :: "int \<Rightarrow> string" where
  "example_strerror n =
     (if n = 2 then ''No such file or directory''
      else if n = 13 then ''Permission denied''
      else ''Unknown error'')"

fun example_vprintf :: "int \<Rightarrow> string \<Rightarrow> string list \<Rightarrow> string" where
  "example_vprintf n [] args = []"
| "example_vprintf n [c] args = [c]"
| "example_vprintf n (c # d # cs) args =
     (if c = CHR ''%'' \<and> d = CHR ''s'' then
        (case args of [] \<Rightarrow> example_vprintf n cs [] | a # as \<Rightarrow> a @ example_vprintf n cs as)
      else if c = CHR ''%'' \<and> d = CHR ''m'' then example_strerror n @ example_vprintf n cs args
      else c # example_vprintf n (d # cs) args)"

record tm =
  tm_year :: nat
  tm_mon :: nat
  tm_mday :: nat
  tm_hour :: nat
  tm_min :: nat
  tm_sec :: nat

definition example_localtime :: "int \<Rightarrow> tm" where
  "example_localtime t =
     \<lparr>tm_year = 1970, tm_mon = 1, tm_mday = 1 + nat (t div 86400),
      tm_hour = nat (t div 3600 mod 24), tm_min = nat (t div 60 mod 60),
      tm_sec = nat (t mod 60)\<rparr>"

definition digits2 :: "nat \<Rightarrow> string" where
  "digits2 n = [char_of (48 + n div 10 mod 10), char_of (48 + n mod 10)]"

fun expand_tm :: "tm \<Rightarrow> string \<Rightarrow> string" where
  "expand_tm t [] = []"
| "expand_tm t [c] = [c]"
| "expand_tm t (c # d # cs) =
     (if c = CHR ''%'' then
        (if d = CHR ''Y'' then digits2 (tm_year t div 100) @ digits2 (tm_year t)
         else if d = CHR ''m'' then digits2 (tm_mon t)
         else if d = CHR ''d'' then digits2 (tm_mday t)
         else if d = CHR ''H'' then digits2 (tm_hour t)
         else if d = CHR ''M'' then digits2 (tm_min t)
         else if d = CHR ''S'' then digits2 (tm_sec t)
         else [d]) @ expand_tm t cs
      else c # expand_tm t (d # cs))"

definition example_strftime :: "nat \<Rightarrow> string \<Rightarrow> tm \<Rightarrow> nat \<times> string" where
  "example_strftime maxsize fmt t =
     (let out = expand_tm t fmt in if length out < maxsize then (length out, out) else (0, []))"

definition example_libc :: "(tm, string list) libc" where
  "example_libc =
     \<lparr>localtime = example_localtime, strftime = example_strftime, vprintf = example_vprintf\<rparr>"

text \<open>
  Modelled from the spec: \<^verbatim>\<open>mail_storage_set_error(storage, error, string)\<close>, the setter
  with an error code that \<^verbatim>\<open>dbox_mailbox_open\<close> calls, is not among the sources; in the
  spec \<^verbatim>\<open>set(message)\<close> stores a plain error and discards the prior message.
\<close>

definition spec_set_error :: "mail_storage \<Rightarrow> int \<Rightarrow> string \<Rightarrow> mail_storage" where
  "spec_set_error storage code msg = storage\<lparr>error := Some msg, syntax_error := False\<rparr>"

definition example_env :: env where
  "example_env =
     \<lparr>stat = (\<lambda>path. Inr \<lparr>st_atime = 1000, st_ctime = 1000\<rparr>),
      unlink_old_files = 0,
      mailbox_list_get_global_temp_prefix = (\<lambda>list. ''temp.''),
      index_storage_mailbox_open = 0,
      mail_index_sync_begin = 1,
      uid_validity = 0,
      mailbox_create_indexes = 0,
      mail_index_sync_commit = 0,
      DBOX_TMP_DELETE_SECS = 129600,
      DBOX_TMP_SCAN_SECS = 28800,
      MAILBOX_LIST_PROP_NO_NOSELECT = 4,
      ENOENT = 2,
      EACCES = 13,
      MAIL_ERROR_NOTFOUND = 6,
      T_MAIL_ERR_MAILBOX_NOT_FOUND = (\<lambda>nm. ''Mailbox does not exist: '' @ nm),
      mail_error_eacces_msg = (\<lambda>func path. func @ ''('' @ path @ '') failed: Permission denied''),
      mail_storage_set_error_code = spec_set_error\<rparr>"

definition example_world :: world where
  "example_world = \<lparr>errno = 0, ioloop_time = 20000, error_log = [], trace = []\<rparr>"

definition example_box :: mailbox where
  "example_box =
     \<lparr>box_name = ''INBOX'', box_path = ''/var/mail/u/INBOX'', box_list = \<lparr>props = 0\<rparr>,
      box_storage = \<lparr>error = None, syntax_error = False\<rparr>\<rparr>"

text \<open>
  A registry of two classes. The world of the backends is the list of the calls they got;
  a created storage is the name of its class with the data it was given.
\<close>

definition example_class ::
  "string \<Rightarrow> bool \<Rightarrow> (string list, string \<times> string option, string) storage_class" where
  "example_class nm detect =
     \<lparr>name = nm,
      create = (\<lambda>data user flags lock_method w. (Some (nm, data), w @ [''create '' @ nm])),
      autodetect = (\<lambda>data flags w. (detect, w @ [''autodetect '' @ nm]))\<rparr>"

definition example_storages ::
  "(string list, string \<times> string option, string) storage_class list" where
  "example_storages =
     mail_storage_class_register
       (mail_storage_class_register [] (example_class ''maildir'' False))
       (example_class ''mbox'' True)"

section \<open>Facts about the model\<close>

lemma trace_called [simp]: "trace (called w c) = trace w @ [c]"
  by (simp add: called_def)

lemma ioloop_time_called [simp]: "ioloop_time (called w c) = ioloop_time w"
  by (simp add: called_def)

lemma error_log_called [simp]: "error_log (called w c) = error_log w"
  by (simp add: called_def)

lemma errno_called [simp]: "errno (called w c) = errno w"
  by (simp add: called_def)

lemma to_time_t_in_range: "in_time_t x \<Longrightarrow> to_time_t x = x"
  by (simp add: to_time_t_def in_time_t_def sint_sbintrunc' signed_take_bit_int_eq_self)

lemma to_time_t_wrap: "to_time_t x = (x + 2 ^ 63) mod 2 ^ 64 - 2 ^ 63"
  by (simp add: to_time_t_def sint_sbintrunc' signed_take_bit_eq_take_bit_shift
      take_bit_eq_mod)

lemma colon_not_alnum: "\<not> i_isalnum CHR '':''"
  by (simp add: i_isalnum_def)

lemma skip_alnum_dropWhile: "skip_alnum d = dropWhile i_isalnum d"
  by (induction d) simp_all

lemma skip_alnum_append:
  "list_all i_isalnum nm \<Longrightarrow> \<not> i_isalnum c \<Longrightarrow> skip_alnum (nm @ c # rest) = c # rest"
  by (induction nm) simp_all

lemma t_strdup_until_append: "t_strdup_until (nm @ p) p = nm"
  by (simp add: t_strdup_until_def)

lemma has_name_prefix_iff:
  "has_name_prefix d = (\<exists>nm rest. list_all i_isalnum nm \<and> d = nm @ CHR '':'' # rest)"
proof
  assume "has_name_prefix d"
  then obtain rest where r: "dropWhile i_isalnum d = CHR '':'' # rest"
    by (auto simp: has_name_prefix_def split: list.splits)
  have "list_all i_isalnum (takeWhile i_isalnum d)"
    by (induction d) simp_all
  moreover have "d = takeWhile i_isalnum d @ CHR '':'' # rest"
    using r takeWhile_dropWhile_id [of i_isalnum d] by simp
  ultimately show "\<exists>nm rest. list_all i_isalnum nm \<and> d = nm @ CHR '':'' # rest"
    by blast
next
  assume "\<exists>nm rest. list_all i_isalnum nm \<and> d = nm @ CHR '':'' # rest"
  then obtain nm rest where "list_all i_isalnum nm" and d: "d = nm @ CHR '':'' # rest"
    by blast
  then have "skip_alnum d = CHR '':'' # rest"
    using skip_alnum_append colon_not_alnum by blast
  then show "has_name_prefix d"
    by (simp add: has_name_prefix_def skip_alnum_dropWhile)
qed

lemma find_map_autodetect:
  "mail_storage_find (map (\<lambda>c. c\<lparr>autodetect := a c\<rparr>) cls) nm =
     map_option (\<lambda>c. c\<lparr>autodetect := a c\<rparr>) (mail_storage_find cls nm)"
  by (induction cls) simp_all

lemma create_map_autodetect:
  "mail_storage_create (map (\<lambda>c. c\<lparr>autodetect := a c\<rparr>) cls) nm data u f l w =
   mail_storage_create cls nm data u f l w"
  by (simp add: mail_storage_create_def find_map_autodetect split: option.splits)

lemma create_with_data_named:
  assumes "list_all i_isalnum nm"
  shows "mail_storage_create_with_data cls (Some (nm @ CHR '':'' # rest)) u f l w =
           mail_storage_create cls nm (Some rest) u f l w"
proof -
  have "skip_alnum (nm @ CHR '':'' # rest) = CHR '':'' # rest"
    using assms by (rule skip_alnum_append) (rule colon_not_alnum)
  moreover have "t_strdup_until (nm @ CHR '':'' # rest) (CHR '':'' # rest) = nm"
    by (rule t_strdup_until_append)
  ultimately show ?thesis
    by (cases "nm @ CHR '':'' # rest")
      (simp_all add: mail_storage_create_with_data_def Let_def del: skip_alnum.simps)
qed

lemma create_with_data_unnamed:
  assumes ne: "d \<noteq> []" and nm: "\<not> has_name_prefix d"
  shows "mail_storage_create_with_data cls (Some d) u f l w =
       (case mail_storage_autodetect cls d f w of
          (Some c, w') \<Rightarrow> create c (Some d) u f l w'
        | (None, w') \<Rightarrow> (None, w'))"
proof -
  have "\<not> (skip_alnum d \<noteq> [] \<and> hd (skip_alnum d) = CHR '':'')"
    using nm by (auto simp: has_name_prefix_def skip_alnum_dropWhile split: list.splits)
  with ne show ?thesis
    by (cases d)
      (auto simp add: mail_storage_create_with_data_def Let_def simp del: skip_alnum.simps)
qed

section \<open>Backend selection\<close>

text \<open>
  C2, as amended. \<^verbatim>\<open>mail_storage_create_with_data\<close> has three branches. Absent or empty
  data goes to \<^verbatim>\<open>mail_storage_create_default\<close>. Data that is a run of alphanumerics, a
  colon and a rest goes to \<^verbatim>\<open>mail_storage_create\<close> with the run as the name of the backend
  and the rest as its data; the run may be empty, so the pattern is \<^verbatim>\<open>^[A-Za-z0-9]*:\<close>,
  and the result does not depend on the autodetect entry of any class. All other data
  goes to autodetection over the classes in order, and the class found is given the whole
  data. \<open>has_name_prefix\<close> says that the data has the middle form.
\<close>

theorem create_with_data_three_way:
  "mail_storage_create_with_data cls None u f l w = mail_storage_create_default cls u f l w
   \<and> mail_storage_create_with_data cls (Some []) u f l w =
       mail_storage_create_default cls u f l w
   \<and> (list_all i_isalnum nm \<longrightarrow>
        mail_storage_create_with_data cls (Some (nm @ CHR '':'' # rest)) u f l w =
          mail_storage_create cls nm (Some rest) u f l w
        \<and> mail_storage_create_with_data (map (\<lambda>c. c\<lparr>autodetect := a c\<rparr>) cls)
            (Some (nm @ CHR '':'' # rest)) u f l w =
          mail_storage_create cls nm (Some rest) u f l w)
   \<and> (d \<noteq> [] \<and> \<not> has_name_prefix d \<longrightarrow>
        mail_storage_create_with_data cls (Some d) u f l w =
          (case mail_storage_autodetect cls d f w of
             (Some c, w') \<Rightarrow> create c (Some d) u f l w'
           | (None, w') \<Rightarrow> (None, w')))
   \<and> has_name_prefix d = (\<exists>nm rest. list_all i_isalnum nm \<and> d = nm @ CHR '':'' # rest)"
  using create_with_data_named [of nm cls rest u f l w]
    create_with_data_named [of nm "map (\<lambda>c. c\<lparr>autodetect := a c\<rparr>) cls" rest u f l w]
    create_with_data_unnamed [of d cls u f l w]
    create_map_autodetect [of a cls nm "Some rest" u f l w]
    has_name_prefix_iff [of d]
  by (simp add: mail_storage_create_with_data_def)

lemma example_class_simps [simp]:
  "name (example_class nm detect) = nm"
  "create (example_class nm detect) data u f l w = (Some (nm, data), w @ [''create '' @ nm])"
  "autodetect (example_class nm detect) data' f w = (detect, w @ [''autodetect '' @ nm])"
  by (simp_all add: example_class_def)

theorem create_with_data_three_way_witness:
  "list_all i_isalnum ''MailDir''
   \<and> mail_storage_create_with_data example_storages (Some ''MailDir:x'') ''u'' 0 0 [] =
       (Some (''maildir'', Some ''x''), [''create maildir''])
   \<and> ''/var/mail'' \<noteq> [] \<and> \<not> has_name_prefix ''/var/mail''
   \<and> mail_storage_create_with_data example_storages (Some ''/var/mail'') ''u'' 0 0 [] =
       (Some (''mbox'', Some ''/var/mail''),
        [''autodetect maildir'', ''autodetect mbox'', ''create mbox''])"
proof -
  have h1: "list_all i_isalnum ''MailDir''"
    by (simp add: i_isalnum_def)
  have h2: "''/var/mail'' \<noteq> [] \<and> \<not> has_name_prefix ''/var/mail''"
    by (simp add: has_name_prefix_def i_isalnum_def)
  have low: "i_tolower CHR ''M'' = CHR ''m''" "i_tolower CHR ''D'' = CHR ''d''"
    "i_tolower CHR ''m'' = CHR ''m''" "i_tolower CHR ''a'' = CHR ''a''" "i_tolower CHR ''i'' = CHR ''i''"
    "i_tolower CHR ''l'' = CHR ''l''" "i_tolower CHR ''d'' = CHR ''d''" "i_tolower CHR ''r'' = CHR ''r''"
    by code_simp+
  have r1: "mail_storage_create example_storages ''MailDir'' (Some ''x'') ''u'' 0 0 [] =
      (Some (''maildir'', Some ''x''), [''create maildir''])"
    by (simp add: mail_storage_create_def example_storages_def mail_storage_class_register_def low)
  have r2: "mail_storage_autodetect example_storages ''/var/mail'' 0 [] =
      (Some (example_class ''mbox'' True), [''autodetect maildir'', ''autodetect mbox''])"
    by (simp add: example_storages_def mail_storage_class_register_def)
  show ?thesis
    using create_with_data_three_way [of example_storages "''u''" 0 0 "[]" "''MailDir''" "''x''" _ "''/var/mail''"]
      h1 h2 r1 r2
    by simp
qed

text \<open>
  The claim has the middle branch for data that matches \<^verbatim>\<open>^[A-Za-z0-9]+:\<close> only, and
  autodetection for the rest. On \<^verbatim>\<open>:x\<close> the code looks for a class with the empty name,
  finds none and returns NULL, with no call to any class; by the claim the data would go
  to autodetection and the class \<^verbatim>\<open>mbox\<close> would be created with it.
\<close>

theorem create_with_data_empty_name_counterexample:
  "mail_storage_create_with_data example_storages (Some '':x'') ''u'' 0 0 [] = (None, [])
   \<and> spec_create_with_data example_storages (Some '':x'') ''u'' 0 0 [] =
       (Some (''mbox'', Some '':x''), [''autodetect maildir'', ''autodetect mbox'', ''create mbox''])"
proof -
  have low: "i_tolower CHR ''m'' = CHR ''m''"
    by code_simp
  show ?thesis
    by (simp add: mail_storage_create_with_data_def spec_create_with_data_def
        matches_name_colon_def t_strdup_until_def mail_storage_create_def
        example_storages_def mail_storage_class_register_def i_isalnum_def low)
qed

section \<open>The error slot\<close>

lemma internal_error_fields:
  "error (mail_storage_set_internal_error lc s storage) =
     Some (case strftime lc 256 CRITICAL_MSG_STAMP (localtime lc (ioloop_time s)) of
             (n, str) \<Rightarrow> if 0 < n then str else CRITICAL_MSG)"
  "syntax_error (mail_storage_set_internal_error lc s storage) = False"
  "mail_storage.more (mail_storage_set_internal_error lc s storage) = mail_storage.more storage"
  by (simp_all add: mail_storage_set_internal_error_def split: prod.splits)

lemma internal_error_time:
  "ioloop_time s = ioloop_time s' \<Longrightarrow>
   mail_storage_set_internal_error lc s storage = mail_storage_set_internal_error lc s' storage"
  by (simp add: mail_storage_set_internal_error_def)

lemma internal_error_drops_message:
  "mail_storage_set_internal_error lc s (storage\<lparr>error := x\<rparr>) =
   mail_storage_set_internal_error lc s storage"
  by (simp add: mail_storage_set_internal_error_def split: prod.splits)

lemma internal_error_i_error:
  "mail_storage_set_internal_error lc (i_error s line) storage =
   mail_storage_set_internal_error lc s storage"
  by (rule internal_error_time) (simp add: i_error_def)

lemma set_critical_Some:
  "mail_storage_set_critical lc s storage (Some f) va =
     (i_error s (vprintf lc (errno s) f va), mail_storage_set_internal_error lc s storage)"
  by (simp add: mail_storage_set_critical_def Let_def internal_error_drops_message
      internal_error_i_error)

lemma set_critical_None:
  "mail_storage_set_critical lc s storage None va = (s, storage\<lparr>error := None\<rparr>)"
  by (simp add: mail_storage_set_critical_def)





text \<open>
  C6. With a format string, \<^verbatim>\<open>mail_storage_set_critical\<close> appends the formatted detail,
  as the formatter returned it, to the operator log, and then sets the internal error in
  the world that has the line: the message is what \<^verbatim>\<open>strftime\<close> made of
  \<^verbatim>\<open>CRITICAL_MSG_STAMP\<close> at \<^verbatim>\<open>ioloop_time\<close>, or \<^verbatim>\<open>CRITICAL_MSG\<close> when \<^verbatim>\<open>strftime\<close> returned 0,
  and the syntax flag is clear. The message does not depend on the format string or its
  arguments, and the template begins with the fixed message.
\<close>

theorem set_critical_logs_then_sets_internal:
  "(case mail_storage_set_critical lc s storage (Some fmt) va of
      (s', storage') \<Rightarrow>
        error_log s' = error_log s @ [vprintf lc (errno s) fmt va]
        \<and> s' = i_error s (vprintf lc (errno s) fmt va)
        \<and> storage' = mail_storage_set_internal_error lc s' storage
        \<and> error storage' =
            Some (case strftime lc 256 CRITICAL_MSG_STAMP (localtime lc (ioloop_time s)) of
                    (n, str) \<Rightarrow> if 0 < n then str else CRITICAL_MSG)
        \<and> \<not> syntax_error storage'
        \<and> error storage' = error (snd (mail_storage_set_critical lc s storage (Some fmt') va')))
   \<and> take (length CRITICAL_MSG) CRITICAL_MSG_STAMP = CRITICAL_MSG"
proof -
  have "error_log (i_error s (vprintf lc (errno s) fmt va)) =
      error_log s @ [vprintf lc (errno s) fmt va]"
    by (simp add: i_error_def)
  then show ?thesis
    by (simp add: set_critical_Some internal_error_fields internal_error_i_error
        CRITICAL_MSG_STAMP_def)
qed

theorem set_critical_logs_then_sets_internal_witness:
  "mail_storage_set_critical example_libc (example_world\<lparr>errno := 13\<rparr>)
     \<lparr>error = Some ''old'', syntax_error = True\<rparr> (Some ''stat(%s) failed: %m'') [''/x''] =
     (example_world\<lparr>errno := 13, error_log := [''stat(/x) failed: Permission denied'']\<rparr>,
      \<lparr>error = Some ''Internal error occured. Refer to server log for more information. [1970-01-01 05:33:20]'',
       syntax_error = False\<rparr>)"
proof -
  have stamp: "example_strftime 256 CRITICAL_MSG_STAMP (example_localtime 20000) =
      (87, ''Internal error occured. Refer to server log for more information. [1970-01-01 05:33:20]'')"
    by code_simp
  have run: "mail_storage_set_critical example_libc (example_world\<lparr>errno := 13\<rparr>)
     \<lparr>error = Some ''old'', syntax_error = True\<rparr> (Some ''stat(%s) failed: %m'') [''/x''] =
     (example_world\<lparr>errno := 13, error_log := [''stat(/x) failed: Permission denied'']\<rparr>,
      \<lparr>error = Some ''Internal error occured. Refer to server log for more information. [1970-01-01 05:33:20]'',
       syntax_error = False\<rparr>)"
    by (simp add: mail_storage_set_critical_def Let_def i_error_def
        mail_storage_set_internal_error_def example_libc_def example_world_def
        example_strerror_def stamp)
  show ?thesis
    using set_critical_logs_then_sets_internal [where lc = example_libc
        and s = "example_world\<lparr>errno := 13\<rparr>"
        and storage = "\<lparr>error = Some ''old'', syntax_error = True\<rparr>"
        and fmt = "''stat(%s) failed: %m''" and va = "[''/x'']"
        and fmt' = "''%s''" and va' = "[]"]
    by (simp add: run)
qed

text \<open>
  C10. With a NULL format string, \<^verbatim>\<open>mail_storage_set_critical\<close> leaves no message, writes
  nothing to the operator log (the process state is as before), does not install the
  internal error message, and keeps the syntax flag and the rest of the storage as they
  were. It is \<^verbatim>\<open>mail_storage_clear_error\<close> only when the flag was clear before.
\<close>

theorem set_critical_null_partial_clear:
  "case mail_storage_set_critical lc s storage None va of
     (s', storage') \<Rightarrow>
       error storage' = None
       \<and> s' = s
       \<and> error_log s' = error_log s
       \<and> error storage' \<noteq> error (mail_storage_set_internal_error lc s storage)
       \<and> syntax_error storage' = syntax_error storage
       \<and> mail_storage.more storage' = mail_storage.more storage
       \<and> (storage' = mail_storage_clear_error storage) = (\<not> syntax_error storage)"
proof -
  have "(storage\<lparr>error := None\<rparr> = storage\<lparr>error := None, syntax_error := False\<rparr>) =
      (\<not> syntax_error storage)"
    by (cases storage) auto
  then show ?thesis
    by (simp add: set_critical_None internal_error_fields mail_storage_clear_error_def)
qed

theorem set_critical_null_partial_clear_witness:
  "mail_storage_set_critical example_libc example_world
     \<lparr>error = Some ''old'', syntax_error = True\<rparr> None [] =
     (example_world, \<lparr>error = None, syntax_error = True\<rparr>)"
  using set_critical_null_partial_clear [where lc = example_libc and s = example_world
      and storage = "\<lparr>error = Some ''old'', syntax_error = True\<rparr>" and va = "[]"]
  by (auto split: prod.splits)

section \<open>The dbox mailbox: open\<close>

text \<open>
  C7. \<^verbatim>\<open>dbox_cleanup_if_exists\<close> calls \<^verbatim>\<open>stat\<close> and nothing else when \<^verbatim>\<open>stat\<close> fails, and
  then reports that the path does not exist. When \<^verbatim>\<open>stat\<close> succeeds it reports that the
  path exists, whatever else happens. Its two tests are made on \<^verbatim>\<open>time_t\<close> values: there is
  no scan when the access time is greater than the wrapped sum of the change time and
  \<^verbatim>\<open>DBOX_TMP_DELETE_SECS\<close>; otherwise there is a scan exactly when the access time is less
  than the wrapped difference of \<^verbatim>\<open>ioloop_time\<close> and \<^verbatim>\<open>DBOX_TMP_SCAN_SECS\<close>, and it is one
  call of \<^verbatim>\<open>unlink_old_files\<close> on the path, with the temp prefix of the list and the wrapped
  difference of \<^verbatim>\<open>ioloop_time\<close> and \<^verbatim>\<open>DBOX_TMP_DELETE_SECS\<close>.

  For the sum and the differences themselves: let the two times of \<^verbatim>\<open>stat\<close> be \<^verbatim>\<open>time_t\<close>
  values, \<^verbatim>\<open>DBOX_TMP_DELETE_SECS\<close> not negative, and \<^verbatim>\<open>ioloop_time\<close> far enough from the
  least \<^verbatim>\<open>time_t\<close> for the two differences to be in the range. Then there is no scan when
  the access time is greater than the change time plus \<^verbatim>\<open>DBOX_TMP_DELETE_SECS\<close>; there is
  a scan only if it is not, and the access time is less than \<^verbatim>\<open>ioloop_time\<close> minus
  \<^verbatim>\<open>DBOX_TMP_SCAN_SECS\<close>, and the scan is for the files older than \<^verbatim>\<open>ioloop_time\<close> minus
  \<^verbatim>\<open>DBOX_TMP_DELETE_SECS\<close>; with equal access and change times and less than
  \<^verbatim>\<open>DBOX_TMP_SCAN_SECS\<close> since the access there is no scan. The scan is made whenever the
  two conditions hold, if the sum is in the range too; a sum above the range wraps to a
  negative value, and then there is no scan.

  What \<^verbatim>\<open>unlink_old_files\<close> returns changes nothing, and \<^verbatim>\<open>dbox_mailbox_open\<close> then returns
  what \<^verbatim>\<open>index_storage_mailbox_open\<close> returns.
\<close>

theorem cleanup_gate:
  "(case dbox_cleanup_if_exists e w list path of
      (ex, w') \<Rightarrow>
        (case stat e path of
           Inl err \<Rightarrow> \<not> ex \<and> calls_since w w' = [Stat path]
         | Inr st \<Rightarrow>
             ex
             \<and> (st_atime st > to_time_t (st_ctime st + DBOX_TMP_DELETE_SECS e) \<longrightarrow>
                  calls_since w w' = [Stat path])
             \<and> (\<not> st_atime st > to_time_t (st_ctime st + DBOX_TMP_DELETE_SECS e) \<longrightarrow>
                  (filter is_scan (calls_since w w') \<noteq> []) =
                    (st_atime st < to_time_t (ioloop_time w - DBOX_TMP_SCAN_SECS e))
                  \<and> filter is_scan (calls_since w w') =
                      (if st_atime st < to_time_t (ioloop_time w - DBOX_TMP_SCAN_SECS e)
                       then [Unlink_old_files path (mailbox_list_get_global_temp_prefix e list)
                               (to_time_t (ioloop_time w - DBOX_TMP_DELETE_SECS e))]
                       else []))
             \<and> (in_time_t (st_atime st) \<and> in_time_t (st_ctime st)
                  \<and> 0 \<le> DBOX_TMP_DELETE_SECS e
                  \<and> in_time_t (ioloop_time w - DBOX_TMP_SCAN_SECS e)
                  \<and> in_time_t (ioloop_time w - DBOX_TMP_DELETE_SECS e) \<longrightarrow>
                  (st_atime st > st_ctime st + DBOX_TMP_DELETE_SECS e \<longrightarrow>
                     calls_since w w' = [Stat path])
                  \<and> (filter is_scan (calls_since w w') \<noteq> [] \<longrightarrow>
                       \<not> st_atime st > st_ctime st + DBOX_TMP_DELETE_SECS e
                       \<and> st_atime st < ioloop_time w - DBOX_TMP_SCAN_SECS e
                       \<and> calls_since w w' =
                           [Stat path,
                            Unlink_old_files path (mailbox_list_get_global_temp_prefix e list)
                              (ioloop_time w - DBOX_TMP_DELETE_SECS e)])
                  \<and> (st_atime st = st_ctime st
                       \<and> ioloop_time w - st_atime st < DBOX_TMP_SCAN_SECS e \<longrightarrow>
                       calls_since w w' = [Stat path])
                  \<and> (in_time_t (st_ctime st + DBOX_TMP_DELETE_SECS e) \<longrightarrow>
                       (filter is_scan (calls_since w w') \<noteq> []) =
                         (\<not> st_atime st > st_ctime st + DBOX_TMP_DELETE_SECS e
                          \<and> st_atime st < ioloop_time w - DBOX_TMP_SCAN_SECS e)))))
   \<and> dbox_cleanup_if_exists (e\<lparr>unlink_old_files := r\<rparr>) w list path =
       dbox_cleanup_if_exists e w list path
   \<and> (case stat e (box_path box) of
         Inl err \<Rightarrow> True
       | Inr st \<Rightarrow>
           fst (dbox_mailbox_open (e\<lparr>unlink_old_files := r\<rparr>) lc w box) =
             index_storage_mailbox_open e)"
proof -
  have gate: "case dbox_cleanup_if_exists e w list path of
      (ex, w') \<Rightarrow>
        (case stat e path of
           Inl err \<Rightarrow> \<not> ex \<and> calls_since w w' = [Stat path]
         | Inr st \<Rightarrow>
             ex
             \<and> Stat path # filter is_scan (calls_since w w') = calls_since w w'
             \<and> (st_atime st > to_time_t (st_ctime st + DBOX_TMP_DELETE_SECS e) \<longrightarrow>
                  calls_since w w' = [Stat path])
             \<and> (\<not> st_atime st > to_time_t (st_ctime st + DBOX_TMP_DELETE_SECS e) \<longrightarrow>
                  (filter is_scan (calls_since w w') \<noteq> []) =
                    (st_atime st < to_time_t (ioloop_time w - DBOX_TMP_SCAN_SECS e))
                  \<and> filter is_scan (calls_since w w') =
                      (if st_atime st < to_time_t (ioloop_time w - DBOX_TMP_SCAN_SECS e)
                       then [Unlink_old_files path (mailbox_list_get_global_temp_prefix e list)
                               (to_time_t (ioloop_time w - DBOX_TMP_DELETE_SECS e))]
                       else [])))"
    by (simp add: dbox_cleanup_if_exists_def Let_def calls_since_def split: sum.splits)
  have rest: "dbox_cleanup_if_exists (e\<lparr>unlink_old_files := r\<rparr>) w list path =
       dbox_cleanup_if_exists e w list path
   \<and> (case stat e (box_path box) of
         Inl err \<Rightarrow> True
       | Inr st \<Rightarrow>
           fst (dbox_mailbox_open (e\<lparr>unlink_old_files := r\<rparr>) lc w box) =
             index_storage_mailbox_open e)"
    by (simp add: dbox_cleanup_if_exists_def dbox_mailbox_open_def Let_def split: sum.splits)
  have range: "to_time_t x = x" if "in_time_t x" for x
    using that by (rule to_time_t_in_range)
  have test1: "to_time_t (c + d) < a"
    if "in_time_t a" "in_time_t c" "0 \<le> d" "c + d < a" for a c d
  proof -
    from that have "in_time_t (c + d)"
      by (simp add: in_time_t_def)
    with that(4) show ?thesis
      by (simp add: range)
  qed
  show ?thesis
  proof (cases "stat e path")
    case (Inl err)
    with gate rest show ?thesis
      by (auto split: prod.splits)
  next
    case (Inr st)
    obtain ex w' where run: "dbox_cleanup_if_exists e w list path = (ex, w')"
      by (cases "dbox_cleanup_if_exists e w list path")
    let ?cs = "calls_since w w'"
    let ?scan = "filter is_scan ?cs"
    let ?D = "DBOX_TMP_DELETE_SECS e"
    let ?S = "DBOX_TMP_SCAN_SECS e"
    from gate run Inr have ex: ex
      and cs: "Stat path # ?scan = ?cs"
      and skip: "st_atime st > to_time_t (st_ctime st + ?D) \<Longrightarrow> ?cs = [Stat path]"
      and scan_iff: "\<not> st_atime st > to_time_t (st_ctime st + ?D) \<Longrightarrow>
          (?scan \<noteq> []) = (st_atime st < to_time_t (ioloop_time w - ?S))"
      and scan_eq: "\<not> st_atime st > to_time_t (st_ctime st + ?D) \<Longrightarrow>
          ?scan = (if st_atime st < to_time_t (ioloop_time w - ?S)
                   then [Unlink_old_files path (mailbox_list_get_global_temp_prefix e list)
                           (to_time_t (ioloop_time w - ?D))]
                   else [])"
      by simp_all
    have noscan: "?scan = []" if "?cs = [Stat path]"
      using that cs by (cases ?scan) simp_all
    have wide: "(st_atime st > st_ctime st + ?D \<longrightarrow> ?cs = [Stat path])
        \<and> (?scan \<noteq> [] \<longrightarrow>
             \<not> st_atime st > st_ctime st + ?D
             \<and> st_atime st < ioloop_time w - ?S
             \<and> ?cs = [Stat path,
                  Unlink_old_files path (mailbox_list_get_global_temp_prefix e list)
                    (ioloop_time w - ?D)])
        \<and> (st_atime st = st_ctime st \<and> ioloop_time w - st_atime st < ?S \<longrightarrow>
             ?cs = [Stat path])
        \<and> (in_time_t (st_ctime st + ?D) \<longrightarrow>
             (?scan \<noteq> []) =
               (\<not> st_atime st > st_ctime st + ?D \<and> st_atime st < ioloop_time w - ?S))"
      if a: "in_time_t (st_atime st)" and c: "in_time_t (st_ctime st)" and d: "0 \<le> ?D"
        and s: "in_time_t (ioloop_time w - ?S)" and t: "in_time_t (ioloop_time w - ?D)"
    proof (intro conjI impI)
      assume "st_atime st > st_ctime st + ?D"
      then have "st_atime st > to_time_t (st_ctime st + ?D)"
        using test1 [OF a c d] by simp
      then show "?cs = [Stat path]"
        by (rule skip)
    next
      assume sc: "?scan \<noteq> []"
      have n1: "\<not> st_atime st > to_time_t (st_ctime st + ?D)"
        using sc skip noscan by blast
      show "\<not> st_atime st > st_ctime st + ?D"
        using n1 test1 [OF a c d] by auto
      show "st_atime st < ioloop_time w - ?S"
        using sc scan_iff [OF n1] by (simp add: range [OF s])
      then show "?cs = [Stat path,
          Unlink_old_files path (mailbox_list_get_global_temp_prefix e list)
            (ioloop_time w - ?D)]"
        using cs [symmetric] scan_eq [OF n1] by (simp only: range [OF s] range [OF t] if_True)
    next
      assume eq: "st_atime st = st_ctime st \<and> ioloop_time w - st_atime st < ?S"
      show "?cs = [Stat path]"
      proof (cases "st_atime st > to_time_t (st_ctime st + ?D)")
        case True
        then show ?thesis by (rule skip)
      next
        case False
        from eq have "\<not> st_atime st < ioloop_time w - ?S"
          by simp
        with scan_iff [OF False] have "?scan = []"
          by (simp add: range [OF s])
        with cs [symmetric] show ?thesis
          by (simp only:)
      qed
    next
      assume r: "in_time_t (st_ctime st + ?D)"
      show "(?scan \<noteq> []) =
          (\<not> st_atime st > st_ctime st + ?D \<and> st_atime st < ioloop_time w - ?S)"
      proof (cases "st_atime st > st_ctime st + ?D")
        case True
        then have "st_atime st > to_time_t (st_ctime st + ?D)"
          by (simp add: range [OF r])
        then have "?scan = []"
          using skip noscan by blast
        with True show ?thesis
          by simp
      next
        case False
        then have "\<not> st_atime st > to_time_t (st_ctime st + ?D)"
          by (simp add: range [OF r])
        from scan_iff [OF this] False show ?thesis
          by (simp add: range [OF s])
      qed
    qed
    note g = gate [unfolded run Inr prod.case sum.case]
    note r = rest [unfolded run]
    from wide have "in_time_t (st_atime st) \<and> in_time_t (st_ctime st) \<and> 0 \<le> ?D
        \<and> in_time_t (ioloop_time w - ?S) \<and> in_time_t (ioloop_time w - ?D) \<longrightarrow>
        (st_atime st > st_ctime st + ?D \<longrightarrow> ?cs = [Stat path])
        \<and> (?scan \<noteq> [] \<longrightarrow>
             \<not> st_atime st > st_ctime st + ?D
             \<and> st_atime st < ioloop_time w - ?S
             \<and> ?cs = [Stat path,
                  Unlink_old_files path (mailbox_list_get_global_temp_prefix e list)
                    (ioloop_time w - ?D)])
        \<and> (st_atime st = st_ctime st \<and> ioloop_time w - st_atime st < ?S \<longrightarrow>
             ?cs = [Stat path])
        \<and> (in_time_t (st_ctime st + ?D) \<longrightarrow>
             (?scan \<noteq> []) =
               (\<not> st_atime st > st_ctime st + ?D \<and> st_atime st < ioloop_time w - ?S))"
      by blast
    with g r show ?thesis
      unfolding run Inr prod.case sum.case by blast
  qed
qed



theorem cleanup_gate_witness:
  "stat example_env ''/var/mail/u/INBOX'' = Inr \<lparr>st_atime = 1000, st_ctime = 1000\<rparr>
   \<and> in_time_t 1000
   \<and> 0 \<le> DBOX_TMP_DELETE_SECS example_env
   \<and> in_time_t (1000 + DBOX_TMP_DELETE_SECS example_env)
   \<and> in_time_t (ioloop_time example_world - DBOX_TMP_SCAN_SECS example_env)
   \<and> in_time_t (ioloop_time example_world - DBOX_TMP_DELETE_SECS example_env)
   \<and> ioloop_time example_world - 1000 < DBOX_TMP_SCAN_SECS example_env
   \<and> dbox_cleanup_if_exists example_env example_world \<lparr>props = 0\<rparr> ''/var/mail/u/INBOX'' =
       (True, example_world\<lparr>trace := [Stat ''/var/mail/u/INBOX'']\<rparr>)
   \<and> in_time_t (ioloop_time (example_world\<lparr>ioloop_time := 100000\<rparr>)
        - DBOX_TMP_SCAN_SECS example_env)
   \<and> in_time_t (ioloop_time (example_world\<lparr>ioloop_time := 100000\<rparr>)
        - DBOX_TMP_DELETE_SECS example_env)
   \<and> (1000 :: int) < ioloop_time (example_world\<lparr>ioloop_time := 100000\<rparr>)
         - DBOX_TMP_SCAN_SECS example_env
   \<and> calls_since (example_world\<lparr>ioloop_time := 100000\<rparr>)
        (snd (dbox_cleanup_if_exists example_env (example_world\<lparr>ioloop_time := 100000\<rparr>)
                \<lparr>props = 0\<rparr> ''/var/mail/u/INBOX'')) =
       [Stat ''/var/mail/u/INBOX'',
        Unlink_old_files ''/var/mail/u/INBOX'' ''temp.'' (- 29600)]
   \<and> in_time_t 9223372036854775807
   \<and> \<not> in_time_t (9223372036854775807 + DBOX_TMP_DELETE_SECS example_env)
   \<and> calls_since (example_world\<lparr>ioloop_time := 100000\<rparr>)
        (snd (dbox_cleanup_if_exists
                (example_env\<lparr>stat :=
                   (\<lambda>p. Inr \<lparr>st_atime = 1000, st_ctime = 9223372036854775807\<rparr>)\<rparr>)
                (example_world\<lparr>ioloop_time := 100000\<rparr>)
                \<lparr>props = 0\<rparr> ''/var/mail/u/INBOX'')) =
       [Stat ''/var/mail/u/INBOX'']"
proof -
  have st: "stat example_env ''/var/mail/u/INBOX'' = Inr \<lparr>st_atime = 1000, st_ctime = 1000\<rparr>"
    by (simp add: example_env_def)
  have c: "DBOX_TMP_DELETE_SECS example_env = 129600" "DBOX_TMP_SCAN_SECS example_env = 28800"
    "mailbox_list_get_global_temp_prefix example_env \<lparr>props = 0\<rparr> = ''temp.''"
    by (simp_all add: example_env_def)
  have t: "ioloop_time example_world = 20000" "trace example_world = []"
    by (simp_all add: example_world_def)
  have i: "in_time_t 1000" "in_time_t 130600" "in_time_t (- 8800)" "in_time_t (- 109600)"
    "in_time_t 71200" "in_time_t (- 29600)" "in_time_t 9223372036854775807"
    "\<not> in_time_t 9223372036854905407"
    by (simp_all add: in_time_t_def)
  have v: "to_time_t 130600 = 130600" "to_time_t (- 8800) = - 8800" "to_time_t 71200 = 71200"
    "to_time_t (- 29600) = - 29600"
    by (simp_all add: to_time_t_in_range i)
  have o: "to_time_t 9223372036854905407 = - 9223372036854646209"
    by (simp add: to_time_t_wrap)
  have r1: "dbox_cleanup_if_exists example_env example_world \<lparr>props = 0\<rparr> ''/var/mail/u/INBOX'' =
      (True, example_world\<lparr>trace := [Stat ''/var/mail/u/INBOX'']\<rparr>)"
    by (simp add: dbox_cleanup_if_exists_def st c t v called_def)
  have r2: "dbox_cleanup_if_exists example_env (example_world\<lparr>ioloop_time := 100000\<rparr>)
        \<lparr>props = 0\<rparr> ''/var/mail/u/INBOX'' =
      (True, example_world\<lparr>ioloop_time := 100000,
         trace := [Stat ''/var/mail/u/INBOX'',
                   Unlink_old_files ''/var/mail/u/INBOX'' ''temp.'' (- 29600)]\<rparr>)"
    by (simp add: dbox_cleanup_if_exists_def st c t v called_def)
  have r3: "dbox_cleanup_if_exists
        (example_env\<lparr>stat := (\<lambda>p. Inr \<lparr>st_atime = 1000, st_ctime = 9223372036854775807\<rparr>)\<rparr>)
        (example_world\<lparr>ioloop_time := 100000\<rparr>) \<lparr>props = 0\<rparr> ''/var/mail/u/INBOX'' =
      (True, example_world\<lparr>ioloop_time := 100000, trace := [Stat ''/var/mail/u/INBOX'']\<rparr>)"
    by (simp add: dbox_cleanup_if_exists_def c t o called_def)
  show ?thesis
    using cleanup_gate [where e = example_env and w = example_world and list = "\<lparr>props = 0\<rparr>"
        and path = "''/var/mail/u/INBOX''" and r = 0 and box = example_box
        and lc = example_libc]
      cleanup_gate [where e = example_env and w = "example_world\<lparr>ioloop_time := 100000\<rparr>"
        and list = "\<lparr>props = 0\<rparr>" and path = "''/var/mail/u/INBOX''" and r = 0
        and box = example_box and lc = example_libc]
      cleanup_gate [where
        e = "example_env\<lparr>stat :=
               (\<lambda>p. Inr \<lparr>st_atime = 1000, st_ctime = 9223372036854775807\<rparr>)\<rparr>"
        and w = "example_world\<lparr>ioloop_time := 100000\<rparr>"
        and list = "\<lparr>props = 0\<rparr>" and path = "''/var/mail/u/INBOX''" and r = 0
        and box = example_box and lc = example_libc]
    by (simp add: st c t i r1 r2 r3 calls_since_def)
qed

text \<open>
  C4. When \<^verbatim>\<open>stat\<close> of the path of the mailbox fails, \<^verbatim>\<open>dbox_mailbox_open\<close> makes no other
  call to a collaborator and returns -1, and what it sets depends on \<^verbatim>\<open>errno\<close> alone.
  \<^verbatim>\<open>ENOENT\<close>: the setter with an error code is called with \<^verbatim>\<open>MAIL_ERROR_NOTFOUND\<close> and the
  not-found message for the name of the mailbox, and nothing is logged. \<^verbatim>\<open>EACCES\<close>: the
  detail \<^verbatim>\<open>mail_error_eacces_msg("stat", path)\<close>, under the format \<^verbatim>\<open>%s\<close>, goes to the log,
  and the storage holds the internal error. Any other value: the same with the format
  \<^verbatim>\<open>stat(%s) failed: %m\<close> on the path, which the formatter expands under the \<^verbatim>\<open>errno\<close> of
  the failed \<^verbatim>\<open>stat\<close>.
\<close>

theorem open_error_mapping:
  assumes "stat e (box_path box) = Inl err"
  shows "case dbox_mailbox_open e lc w box of
     (r, w', box') \<Rightarrow>
       r = - 1
       \<and> calls_since w w' = [Stat (box_path box)]
       \<and> errno w' = err
       \<and> (err = ENOENT e \<longrightarrow>
            error_log w' = error_log w
            \<and> box_storage box' =
                mail_storage_set_error_code e (box_storage box) (MAIL_ERROR_NOTFOUND e)
                  (T_MAIL_ERR_MAILBOX_NOT_FOUND e (box_name box)))
       \<and> (err \<noteq> ENOENT e \<and> err = EACCES e \<longrightarrow>
            error_log w' =
              error_log w @ [vprintf lc err ''%s'' [mail_error_eacces_msg e ''stat'' (box_path box)]]
            \<and> box_storage box' = mail_storage_set_internal_error lc w (box_storage box))
       \<and> (err \<noteq> ENOENT e \<and> err \<noteq> EACCES e \<longrightarrow>
            error_log w' = error_log w @ [vprintf lc err ''stat(%s) failed: %m'' [box_path box]]
            \<and> box_storage box' = mail_storage_set_internal_error lc w (box_storage box))"
  using assms
  by (simp add: dbox_mailbox_open_def dbox_cleanup_if_exists_def calls_since_def
      mail_storage_set_critical_def i_error_def Let_def mail_storage_set_internal_error_def)

theorem open_error_mapping_witness:
  "stat (example_env\<lparr>stat := (\<lambda>p. Inl 2)\<rparr>) (box_path example_box) = Inl 2
   \<and> stat (example_env\<lparr>stat := (\<lambda>p. Inl 13)\<rparr>) (box_path example_box) = Inl 13
   \<and> stat (example_env\<lparr>stat := (\<lambda>p. Inl 5)\<rparr>) (box_path example_box) = Inl 5
   \<and> dbox_mailbox_open (example_env\<lparr>stat := (\<lambda>p. Inl 2)\<rparr>) example_libc example_world
        example_box =
       (- 1, example_world\<lparr>errno := 2, trace := [Stat ''/var/mail/u/INBOX'']\<rparr>,
        example_box\<lparr>box_storage :=
          \<lparr>error = Some ''Mailbox does not exist: INBOX'', syntax_error = False\<rparr>\<rparr>)
   \<and> error_log (fst (snd (dbox_mailbox_open (example_env\<lparr>stat := (\<lambda>p. Inl 13)\<rparr>)
         example_libc example_world example_box))) =
       [''stat(/var/mail/u/INBOX) failed: Permission denied'']
   \<and> error_log (fst (snd (dbox_mailbox_open (example_env\<lparr>stat := (\<lambda>p. Inl 5)\<rparr>)
         example_libc example_world example_box))) =
       [''stat(/var/mail/u/INBOX) failed: Unknown error'']
   \<and> error (box_storage (snd (snd (dbox_mailbox_open (example_env\<lparr>stat := (\<lambda>p. Inl 5)\<rparr>)
         example_libc example_world example_box)))) =
       Some ''Internal error occured. Refer to server log for more information. [1970-01-01 05:33:20]''"
proof -
  have s: "stat (example_env\<lparr>stat := (\<lambda>p. Inl n)\<rparr>) (box_path example_box) = Inl n" for n
    by simp
  have c: "ENOENT example_env = 2" "EACCES example_env = 13"
    "MAIL_ERROR_NOTFOUND example_env = 6"
    "T_MAIL_ERR_MAILBOX_NOT_FOUND example_env nm = ''Mailbox does not exist: '' @ nm"
    "mail_error_eacces_msg example_env fn p = fn @ ''('' @ p @ '') failed: Permission denied''"
    "mail_storage_set_error_code example_env = spec_set_error" for nm fn p
    by (simp_all add: example_env_def)
  have b: "box_path example_box = ''/var/mail/u/INBOX''" "box_name example_box = ''INBOX''"
    "box_storage example_box = \<lparr>error = None, syntax_error = False\<rparr>"
    by (simp_all add: example_box_def)
  have w: "error_log example_world = []" "ioloop_time example_world = 20000"
    "trace example_world = []"
    by (simp_all add: example_world_def)
  have v: "vprintf example_libc = example_vprintf" "strftime example_libc = example_strftime"
    "localtime example_libc = example_localtime"
    by (simp_all add: example_libc_def)
  have stamp: "example_strftime 256 CRITICAL_MSG_STAMP (example_localtime 20000) =
      (87, ''Internal error occured. Refer to server log for more information. [1970-01-01 05:33:20]'')"
    by code_simp
  have r2: "dbox_mailbox_open (example_env\<lparr>stat := (\<lambda>p. Inl 2)\<rparr>) example_libc example_world
        example_box =
       (- 1, example_world\<lparr>errno := 2, trace := [Stat ''/var/mail/u/INBOX'']\<rparr>,
        example_box\<lparr>box_storage :=
          \<lparr>error = Some ''Mailbox does not exist: INBOX'', syntax_error = False\<rparr>\<rparr>)"
    by (simp add: dbox_mailbox_open_def dbox_cleanup_if_exists_def c b w called_def
        spec_set_error_def)
  show ?thesis
    using open_error_mapping [OF s [of 2], where lc = example_libc and w = example_world]
      open_error_mapping [OF s [of 13], where lc = example_libc and w = example_world]
      open_error_mapping [OF s [of 5], where lc = example_libc and w = example_world]
      r2
    by (simp add: c b w v stamp example_strerror_def mail_storage_set_internal_error_def
        split: prod.splits)
qed

section \<open>The dbox mailbox: create\<close>

lemma example_create_facts:
  "props (box_list example_box) = 0"
  "box_storage example_box = \<lparr>error = None, syntax_error = False\<rparr>"
  "MAILBOX_LIST_PROP_NO_NOSELECT example_env = 4"
  "index_storage_mailbox_open example_env = 0"
  "mail_index_sync_begin example_env = 1"
  "uid_validity example_env = 0"
  "mailbox_create_indexes example_env = 0"
  "mail_index_sync_commit example_env = 0"
  "trace example_world = []"
  "ioloop_time example_world = 20000"
  by (simp_all add: example_box_def example_env_def example_world_def)

text \<open>
  C9. \<^verbatim>\<open>dbox_mailbox_create\<close> returns 0 with no call to a collaborator, and with the world
  and the mailbox as they were, exactly when \<^verbatim>\<open>directory\<close> is set and the bit
  \<^verbatim>\<open>MAILBOX_LIST_PROP_NO_NOSELECT\<close> is clear in the properties of the list of the mailbox. In
  every other case its first call is \<^verbatim>\<open>index_storage_mailbox_open\<close>.
\<close>

theorem create_trivial_iff:
  "case dbox_mailbox_create e lc w box directory of
     (r, w', box') \<Rightarrow>
       (calls_since w w' = []) =
         (directory \<and> (props (box_list box) AND MAILBOX_LIST_PROP_NO_NOSELECT e) = 0)
       \<and> (r = Inr 0 \<and> w' = w \<and> box' = box \<and> calls_since w w' = []) =
           (directory \<and> (props (box_list box) AND MAILBOX_LIST_PROP_NO_NOSELECT e) = 0)
       \<and> (calls_since w w' = [] \<or> hd (calls_since w w') = Index_storage_mailbox_open)"
proof (cases "create_is_trivial e box directory")
  case True
  then show ?thesis
    by (simp add: dbox_mailbox_create_def create_is_trivial_def calls_since_def)
next
  case False
  then have "(directory \<and> (props (box_list box) AND MAILBOX_LIST_PROP_NO_NOSELECT e) = 0) = False"
    by (simp add: create_is_trivial_def)
  then show ?thesis
    by (simp add: dbox_mailbox_create_def Let_def calls_since_def)
qed

theorem create_trivial_iff_witness:
  "dbox_mailbox_create example_env example_libc example_world example_box True =
     (Inr 0, example_world, example_box)
   \<and> calls_since example_world
       (fst (snd (dbox_mailbox_create example_env example_libc example_world example_box False))) =
       [Index_storage_mailbox_open, Mail_index_sync_begin, Mail_index_get_header,
        Mailbox_create_indexes, Mail_index_sync_commit]
   \<and> hd (calls_since example_world
       (fst (snd (dbox_mailbox_create example_env example_libc example_world
          (example_box\<lparr>box_list := \<lparr>props = 4\<rparr>\<rparr>) True)))) = Index_storage_mailbox_open"
proof -
  have r: "calls_since example_world
       (fst (snd (dbox_mailbox_create example_env example_libc example_world example_box False))) =
       [Index_storage_mailbox_open, Mail_index_sync_begin, Mail_index_get_header,
        Mailbox_create_indexes, Mail_index_sync_commit]"
    by (simp add: dbox_mailbox_create_def Let_def calls_since_def example_create_facts)
  show ?thesis
    using create_trivial_iff [where e = example_env and lc = example_libc and w = example_world
        and box = example_box and directory = True]
      create_trivial_iff [where e = example_env and lc = example_libc and w = example_world
        and box = "example_box\<lparr>box_list := \<lparr>props = 4\<rparr>\<rparr>" and directory = True]
      r
    by (auto simp add: example_create_facts split: prod.splits)
qed

text \<open>
  C8. On the paths that reach \<^verbatim>\<open>mail_index_sync_begin\<close> (the create is not the trivial one
  and the open of the index did not fail): when it returns 0 the assertion \<^verbatim>\<open>ret != 0\<close>
  fails, with nothing called or set after it; when it returns a negative value the
  internal error is set on the storage of the mailbox, \<^verbatim>\<open>mail_index_reset_error\<close> is the
  one call that follows, and the create returns -1.
\<close>

theorem create_sync_begin_failure:
  assumes "\<not> create_is_trivial e box directory" and "0 \<le> index_storage_mailbox_open e"
  shows "case dbox_mailbox_create e lc w box directory of
     (r, w', box') \<Rightarrow>
       (mail_index_sync_begin e = 0 \<longrightarrow>
          r = Inl Assertion_failed
          \<and> calls_since w w' = [Index_storage_mailbox_open, Mail_index_sync_begin]
          \<and> box' = box)
       \<and> (mail_index_sync_begin e < 0 \<longrightarrow>
            r = Inr (- 1)
            \<and> calls_since w w' =
                [Index_storage_mailbox_open, Mail_index_sync_begin, Mail_index_reset_error]
            \<and> box' = box\<lparr>box_storage := mail_storage_set_internal_error lc w (box_storage box)\<rparr>
            \<and> error (box_storage box') =
                Some (case strftime lc 256 CRITICAL_MSG_STAMP (localtime lc (ioloop_time w)) of
                        (n, str) \<Rightarrow> if 0 < n then str else CRITICAL_MSG)
            \<and> \<not> syntax_error (box_storage box'))"
proof -
  from assms(1)
  have "(directory \<and> (props (box_list box) AND MAILBOX_LIST_PROP_NO_NOSELECT e) = 0) = False"
    by (simp add: create_is_trivial_def)
  moreover have "mail_storage_set_internal_error lc
       (called (called w Index_storage_mailbox_open) Mail_index_sync_begin) st =
      mail_storage_set_internal_error lc w st" for st :: mail_storage
    by (rule internal_error_time) simp
  ultimately show ?thesis
    using assms(2)
    by (simp add: dbox_mailbox_create_def Let_def calls_since_def internal_error_fields)
qed

theorem create_sync_begin_failure_witness:
  "\<not> create_is_trivial (example_env\<lparr>mail_index_sync_begin := 0\<rparr>) example_box False
   \<and> 0 \<le> index_storage_mailbox_open (example_env\<lparr>mail_index_sync_begin := 0\<rparr>)
   \<and> fst (dbox_mailbox_create (example_env\<lparr>mail_index_sync_begin := 0\<rparr>) example_libc
        example_world example_box False) = Inl Assertion_failed
   \<and> \<not> create_is_trivial (example_env\<lparr>mail_index_sync_begin := - 1\<rparr>) example_box False
   \<and> 0 \<le> index_storage_mailbox_open (example_env\<lparr>mail_index_sync_begin := - 1\<rparr>)
   \<and> dbox_mailbox_create (example_env\<lparr>mail_index_sync_begin := - 1\<rparr>) example_libc
        example_world example_box False =
       (Inr (- 1),
        example_world\<lparr>trace :=
          [Index_storage_mailbox_open, Mail_index_sync_begin, Mail_index_reset_error]\<rparr>,
        example_box\<lparr>box_storage :=
          \<lparr>error = Some ''Internal error occured. Refer to server log for more information. [1970-01-01 05:33:20]'',
           syntax_error = False\<rparr>\<rparr>)"
proof -
  have h1: "\<not> create_is_trivial (example_env\<lparr>mail_index_sync_begin := n\<rparr>) example_box False" for n
    by (simp add: create_is_trivial_def)
  have h2: "0 \<le> index_storage_mailbox_open (example_env\<lparr>mail_index_sync_begin := n\<rparr>)" for n
    by (simp add: example_create_facts)
  have stamp: "example_strftime 256 CRITICAL_MSG_STAMP (example_localtime 20000) =
      (87, ''Internal error occured. Refer to server log for more information. [1970-01-01 05:33:20]'')"
    by code_simp
  have r: "dbox_mailbox_create (example_env\<lparr>mail_index_sync_begin := - 1\<rparr>) example_libc
        example_world example_box False =
       (Inr (- 1),
        example_world\<lparr>trace :=
          [Index_storage_mailbox_open, Mail_index_sync_begin, Mail_index_reset_error]\<rparr>,
        example_box\<lparr>box_storage :=
          \<lparr>error = Some ''Internal error occured. Refer to server log for more information. [1970-01-01 05:33:20]'',
           syntax_error = False\<rparr>\<rparr>)"
    by (simp add: dbox_mailbox_create_def Let_def example_create_facts called_def
        mail_storage_set_internal_error_def example_libc_def stamp)
  show ?thesis
    using create_sync_begin_failure [OF h1 [of 0] h2 [of 0],
        where lc = example_libc and w = example_world]
      create_sync_begin_failure [OF h1 [of "- 1"] h2 [of "- 1"],
        where lc = example_libc and w = example_world]
      h1 h2 r
    by (simp split: prod.splits)
qed

text \<open>
  C1. On the paths on which \<^verbatim>\<open>mail_index_sync_begin\<close> has returned the guard (a positive
  value): the header is read after the guard is taken, and \<^verbatim>\<open>mailbox_create_indexes\<close> is
  called, once and after that, exactly when the \<^verbatim>\<open>uid_validity\<close> of the header is zero;
  with a non-zero \<^verbatim>\<open>uid_validity\<close> it is not called. When it is called and fails, the guard
  is rolled back, not committed, and the create returns -1; on the other paths the guard
  is committed, not rolled back, and the create returns what the commit returns.
\<close>

theorem create_initializes_iff_uid_validity_zero:
  assumes "\<not> create_is_trivial e box directory" and "0 \<le> index_storage_mailbox_open e"
    and "0 < mail_index_sync_begin e"
  shows "case dbox_mailbox_create e lc w box directory of
     (r, w', box') \<Rightarrow>
       (Mailbox_create_indexes \<in> set (calls_since w w')) = (uid_validity e = 0)
       \<and> count_list (calls_since w w') Mailbox_create_indexes \<le> 1
       \<and> take 3 (calls_since w w') =
           [Index_storage_mailbox_open, Mail_index_sync_begin, Mail_index_get_header]
       \<and> (uid_validity e = 0 \<and> mailbox_create_indexes e < 0 \<longrightarrow>
            r = Inr (- 1)
            \<and> drop 3 (calls_since w w') = [Mailbox_create_indexes, Mail_index_sync_rollback])
       \<and> (uid_validity e = 0 \<and> \<not> mailbox_create_indexes e < 0 \<longrightarrow>
            r = Inr (mail_index_sync_commit e)
            \<and> drop 3 (calls_since w w') = [Mailbox_create_indexes, Mail_index_sync_commit])
       \<and> (uid_validity e \<noteq> 0 \<longrightarrow>
            r = Inr (mail_index_sync_commit e)
            \<and> drop 3 (calls_since w w') = [Mail_index_sync_commit])"
proof -
  from assms(1)
  have "(directory \<and> (props (box_list box) AND MAILBOX_LIST_PROP_NO_NOSELECT e) = 0) = False"
    by (simp add: create_is_trivial_def)
  with assms(2,3) show ?thesis
    by (simp add: dbox_mailbox_create_def Let_def calls_since_def)
qed

theorem create_initializes_iff_uid_validity_zero_witness:
  "\<not> create_is_trivial example_env example_box False
   \<and> 0 \<le> index_storage_mailbox_open example_env
   \<and> 0 < mail_index_sync_begin example_env
   \<and> uid_validity example_env = 0
   \<and> Mailbox_create_indexes \<in> set (calls_since example_world
        (fst (snd (dbox_mailbox_create example_env example_libc example_world example_box False))))
   \<and> fst (dbox_mailbox_create example_env example_libc example_world example_box False) = Inr 0
   \<and> uid_validity (example_env\<lparr>uid_validity := 7\<rparr>) \<noteq> 0
   \<and> Mailbox_create_indexes \<notin> set (calls_since example_world
        (fst (snd (dbox_mailbox_create (example_env\<lparr>uid_validity := 7\<rparr>) example_libc
           example_world example_box False))))
   \<and> mailbox_create_indexes (example_env\<lparr>mailbox_create_indexes := - 1\<rparr>) < 0
   \<and> fst (dbox_mailbox_create (example_env\<lparr>mailbox_create_indexes := - 1\<rparr>) example_libc
        example_world example_box False) = Inr (- 1)
   \<and> drop 3 (calls_since example_world
        (fst (snd (dbox_mailbox_create (example_env\<lparr>mailbox_create_indexes := - 1\<rparr>)
           example_libc example_world example_box False)))) =
       [Mailbox_create_indexes, Mail_index_sync_rollback]"
proof -
  have h1: "\<not> create_is_trivial example_env example_box False"
    "\<not> create_is_trivial (example_env\<lparr>uid_validity := 7\<rparr>) example_box False"
    "\<not> create_is_trivial (example_env\<lparr>mailbox_create_indexes := - 1\<rparr>) example_box False"
    by (simp_all add: create_is_trivial_def)
  have h2: "0 \<le> index_storage_mailbox_open example_env"
    "0 \<le> index_storage_mailbox_open (example_env\<lparr>uid_validity := 7\<rparr>)"
    "0 \<le> index_storage_mailbox_open (example_env\<lparr>mailbox_create_indexes := - 1\<rparr>)"
    by (simp_all add: example_create_facts)
  have h3: "0 < mail_index_sync_begin example_env"
    "0 < mail_index_sync_begin (example_env\<lparr>uid_validity := 7\<rparr>)"
    "0 < mail_index_sync_begin (example_env\<lparr>mailbox_create_indexes := - 1\<rparr>)"
    by (simp_all add: example_create_facts)
  show ?thesis
    using create_initializes_iff_uid_validity_zero [OF h1(1) h2(1) h3(1),
        where lc = example_libc and w = example_world]
      create_initializes_iff_uid_validity_zero [OF h1(2) h2(2) h3(2),
        where lc = example_libc and w = example_world]
      create_initializes_iff_uid_validity_zero [OF h1(3) h2(3) h3(3),
        where lc = example_libc and w = example_world]
      h1 h2 h3
    by (simp add: example_create_facts split: prod.splits)
qed

text \<open>
  C3. On every path of \<^verbatim>\<open>dbox_mailbox_create\<close> on which \<^verbatim>\<open>mail_index_sync_begin\<close> was
  called and returned the guard, the create returns (it does not stop at the assertion)
  and, among its calls, the guard is taken once and released once, by the last call:
  a rollback exactly when \<^verbatim>\<open>mailbox_create_indexes\<close> was called and failed, a commit on all
  other paths, never both.
\<close>

theorem create_releases_guard_once:
  assumes "case dbox_mailbox_create e lc w box directory of
      (r, w', box') \<Rightarrow> Mail_index_sync_begin \<in> set (calls_since w w')"
    and "0 < mail_index_sync_begin e"
  shows "case dbox_mailbox_create e lc w box directory of
     (r, w', box') \<Rightarrow>
       count_list (calls_since w w') Mail_index_sync_rollback
         + count_list (calls_since w w') Mail_index_sync_commit = 1
       \<and> count_list (calls_since w w') Mail_index_sync_begin = 1
       \<and> (Mail_index_sync_rollback \<in> set (calls_since w w')) =
           (uid_validity e = 0 \<and> mailbox_create_indexes e < 0)
       \<and> (Mail_index_sync_commit \<in> set (calls_since w w')) =
           (\<not> (uid_validity e = 0 \<and> mailbox_create_indexes e < 0))
       \<and> last (calls_since w w') \<in> {Mail_index_sync_rollback, Mail_index_sync_commit}
       \<and> Mail_index_sync_begin \<in> set (butlast (calls_since w w'))
       \<and> (\<exists>n. r = Inr n)"
  using assms
  by (simp add: dbox_mailbox_create_def Let_def calls_since_def split: if_splits)

theorem create_releases_guard_once_witness:
  "Mail_index_sync_begin \<in> set (calls_since example_world
      (fst (snd (dbox_mailbox_create (example_env\<lparr>mailbox_create_indexes := - 1\<rparr>)
         example_libc example_world example_box False))))
   \<and> 0 < mail_index_sync_begin (example_env\<lparr>mailbox_create_indexes := - 1\<rparr>)
   \<and> calls_since example_world
        (fst (snd (dbox_mailbox_create (example_env\<lparr>mailbox_create_indexes := - 1\<rparr>)
           example_libc example_world example_box False))) =
       [Index_storage_mailbox_open, Mail_index_sync_begin, Mail_index_get_header,
        Mailbox_create_indexes, Mail_index_sync_rollback]
   \<and> count_list (calls_since example_world
        (fst (snd (dbox_mailbox_create (example_env\<lparr>mailbox_create_indexes := - 1\<rparr>)
           example_libc example_world example_box False)))) Mail_index_sync_commit = 0"
proof -
  have r: "dbox_mailbox_create (example_env\<lparr>mailbox_create_indexes := - 1\<rparr>)
         example_libc example_world example_box False =
      (Inr (- 1),
       example_world\<lparr>trace := [Index_storage_mailbox_open, Mail_index_sync_begin,
         Mail_index_get_header, Mailbox_create_indexes, Mail_index_sync_rollback]\<rparr>,
       example_box)"
    by (simp add: dbox_mailbox_create_def Let_def example_create_facts called_def)
  have h1: "case dbox_mailbox_create (example_env\<lparr>mailbox_create_indexes := - 1\<rparr>)
         example_libc example_world example_box False of
      (r, w', box') \<Rightarrow> Mail_index_sync_begin \<in> set (calls_since example_world w')"
    by (simp add: r calls_since_def example_create_facts)
  have h2: "0 < mail_index_sync_begin (example_env\<lparr>mailbox_create_indexes := - 1\<rparr>)"
    by (simp add: example_create_facts)
  show ?thesis
    using create_releases_guard_once [OF h1 h2] h2
    by (simp add: r calls_since_def example_create_facts)
qed


end
